theory Spec2Isabelle
  imports Main "HOL-Library.Monad_Syntax"
begin

section \<open>C data: strings, pointer arrays, the environment\<close>

text \<open>
  The two launchers, \<^verbatim>\<open>agent-noshell.c\<close> and \<^verbatim>\<open>agent-noshrc.c\<close>, build an argument
  vector and an environment table and hand both to \<^verbatim>\<open>execv\<close>/\<^verbatim>\<open>execve\<close>.

  A C string is a \<^typ>\<open>string\<close> (a list of bytes, assumed free of NUL as every C string
  is, so that \<^verbatim>\<open>strcmp(a, b) == 0\<close> is equality). An element of a \<^verbatim>\<open>char *[]\<close> array
  is either a slot never written, the NULL pointer, or a pointer to a string.
\<close>

datatype cptr = Uninit | Null | Str string

text \<open>
  A write \<^verbatim>\<open>a[i] = v\<close> into an array of fixed size. A write beyond the end of the array
  is undefined behaviour in C; the model makes it the value \<open>None\<close>.
\<close>

definition store :: "cptr list \<Rightarrow> nat \<Rightarrow> cptr \<Rightarrow> cptr list option" where
  "store buf i v = (if i < length buf then Some (buf[i := v]) else None)"

text \<open>
  What the kernel reads from a \<^verbatim>\<open>char *[]\<close> passed to exec: the entries up to and
  including the first NULL. Meeting a slot never written, or the end of the array
  before any NULL, is undefined behaviour (\<open>None\<close>).
\<close>

fun c_vector :: "cptr list \<Rightarrow> cptr list option" where
  "c_vector [] = None"
| "c_vector (Uninit # rest) = None"
| "c_vector (Null # rest) = Some [Null]"
| "c_vector (Str s # rest) = map_option ((#) (Str s)) (c_vector rest)"

text \<open>
  The process environment \<^verbatim>\<open>environ\<close> is a list of \<^verbatim>\<open>KEY=VALUE\<close> strings. The libc
  functions are modelled after glibc: \<^verbatim>\<open>getenv\<close> returns the value of the first entry
  that starts with the name followed by \<^verbatim>\<open>=\<close>; \<^verbatim>\<open>clearenv\<close> empties the list;
  \<^verbatim>\<open>setenv(name, value, 1)\<close> overwrites the first such entry or appends a new one
  (it is taken to succeed: the sources ignore its return value).
\<close>

definition env_match :: "string \<Rightarrow> string \<Rightarrow> bool" where
  "env_match name entry = (take (Suc (length name)) entry = name @ ''='')"

fun getenv :: "string \<Rightarrow> string list \<Rightarrow> string option" where
  "getenv name [] = None"
| "getenv name (e # es) =
     (if env_match name e then Some (drop (Suc (length name)) e) else getenv name es)"

definition clearenv :: "string list \<Rightarrow> string list" where
  "clearenv env = []"

fun setenv :: "string \<Rightarrow> string \<Rightarrow> string list \<Rightarrow> string list" where
  "setenv name val [] = [name @ ''='' @ val]"
| "setenv name val (e # es) =
     (if env_match name e then (name @ ''='' @ val) # es else e # setenv name val es)"

text \<open>The table \<^verbatim>\<open>execv\<close> passes on: \<^verbatim>\<open>environ\<close>, a NULL-terminated array.\<close>

definition environ_table :: "string list \<Rightarrow> cptr list" where
  "environ_table env = map Str env @ [Null]"

text \<open>The key of a \<^verbatim>\<open>KEY=VALUE\<close> entry, and the keys of a table.\<close>

definition entry_key :: "string \<Rightarrow> string" where
  "entry_key entry = takeWhile (\<lambda>c. c \<noteq> CHR ''='') entry"

fun table_keys :: "cptr list \<Rightarrow> string list" where
  "table_keys [] = []"
| "table_keys (Str s # rest) = entry_key s # table_keys rest"
| "table_keys (p # rest) = table_keys rest"

section \<open>The process and the operating system\<close>

text \<open>
  An exec call carries the path, the argument vector and the environment table, as
  the kernel reads them. The operating system is a parameter: \<open>sys_exec\<close> answers a
  call with \<open>None\<close> when the process image is replaced (the call does not return) and
  with \<open>Some errno\<close> when it fails and returns; \<open>sys_strerror\<close> is the text
  \<^verbatim>\<open>perror\<close> prints for an errno.
\<close>

record exec_call =
  ec_path :: string
  ec_argv :: "cptr list"
  ec_envp :: "cptr list"

record system =
  sys_exec :: "exec_call \<Rightarrow> nat option"
  sys_strerror :: "nat \<Rightarrow> string"

datatype status = Exited int | Replaced | Undefined

text \<open>
  What a run of \<^verbatim>\<open>main\<close> leaves behind: the chunks written to standard output and
  to standard error (one per \<^verbatim>\<open>printf\<close>/\<^verbatim>\<open>fprintf\<close>/\<^verbatim>\<open>perror\<close> call, in order),
  the exec calls issued, and how the program ended.
\<close>

record result =
  r_stdout :: "string list"
  r_stderr :: "string list"
  r_execs :: "exec_call list"
  r_status :: status

definition undefined_behaviour :: "string list \<Rightarrow> string list \<Rightarrow> result" where
  "undefined_behaviour out err =
     \<lparr>r_stdout = out, r_stderr = err, r_execs = [], r_status = Undefined\<rparr>"

definition perror :: "system \<Rightarrow> string \<Rightarrow> nat \<Rightarrow> string" where
  "perror sys msg errno = msg @ '': '' @ sys_strerror sys errno @ ''\<newline>''"

text \<open>
  The tail shared by both programs: the exec call, and when it returns,
  \<^verbatim>\<open>perror(msg); return 1;\<close>.
\<close>

definition exec_or_fail ::
  "system \<Rightarrow> exec_call \<Rightarrow> string \<Rightarrow> string list \<Rightarrow> string list \<Rightarrow> result" where
  "exec_or_fail sys call msg out err =
     (case sys_exec sys call of
        None \<Rightarrow> \<lparr>r_stdout = out, r_stderr = err, r_execs = [call], r_status = Replaced\<rparr>
      | Some errno \<Rightarrow>
          \<lparr>r_stdout = out, r_stderr = err @ [perror sys msg errno],
           r_execs = [call], r_status = Exited 1\<rparr>)"

text \<open>\<^verbatim>\<open>%d\<close> of a count (never negative): its decimal digits.\<close>

fun show_nat :: "nat \<Rightarrow> string" where
  "show_nat n =
     (if n < 10 then [char_of (48 + n)]
      else show_nat (n div 10) @ [char_of (48 + n mod 10)])"

section \<open>agent-noshell.c\<close>

text \<open>
  \<^verbatim>\<open>argc\<close> is the length of \<^verbatim>\<open>argv\<close>; the kernel bounds it far below
  \<^verbatim>\<open>INT_MAX\<close>, so the \<^verbatim>\<open>int\<close> arithmetic of the sources (\<^verbatim>\<open>i + 3\<close>, \<^verbatim>\<open>argc + 2\<close>)
  does not overflow and is written over \<^typ>\<open>nat\<close>.
\<close>

definition noshell_usage :: string where
  "noshell_usage = ''Usage: agent-noshell <request>\<newline>''"

definition noshell_python :: string where
  "noshell_python = ''/usr/bin/python3''"

definition noshell_script :: string where
  "noshell_script = ''/root/Tools/Mobile-Agent/agent-direct''"

text \<open>Lines 17 to 24: \<^verbatim>\<open>clearenv\<close>, then five \<^verbatim>\<open>setenv\<close> calls.\<close>

definition noshell_env :: "string list \<Rightarrow> string list" where
  "noshell_env env0 =
     (let env1 = clearenv env0;
          env2 = setenv ''PATH'' ''/usr/bin:/bin:/usr/local/bin'' env1;
          env3 = setenv ''PYTHONIOENCODING'' ''utf-8'' env2;
          env4 = setenv ''PYTHONPATH'' ''/root/Tools/Mobile-Agent'' env3;
          env5 = setenv ''PYTHONDONTWRITEBYTECODE'' ''1'' env4;
          env6 = setenv ''PYTHONNOUSERSITE'' ''1'' env5
      in env6)"

text \<open>
  Lines 35 to 37: \<^verbatim>\<open>for (i = 1; i < argc && i < 1020; i++) python_argv[i + 3] = argv[i];\<close>
  The function returns the final \<^verbatim>\<open>i\<close> with the array.
\<close>

function copy_args :: "nat \<Rightarrow> string list \<Rightarrow> cptr list \<Rightarrow> (nat \<times> cptr list) option" where
  "copy_args i argv buf =
     (if i < length argv \<and> i < 1020 then
        (case store buf (i + 3) (Str (argv ! i)) of
           None \<Rightarrow> None
         | Some buf' \<Rightarrow> copy_args (i + 1) argv buf')
      else Some (i, buf))"
  by pat_completeness auto
termination
  by (relation "measure (\<lambda>(i, argv, buf). length argv - i)") auto

declare copy_args.simps [simp del]

text \<open>Lines 27 to 38: the array \<^verbatim>\<open>char *python_argv[1024]\<close> and its filling.\<close>

definition python_argv :: "string list \<Rightarrow> cptr list option" where
  "python_argv argv =
     do {
       b0 \<leftarrow> store (replicate 1024 Uninit) 0 (Str noshell_python);
       b1 \<leftarrow> store b0 1 (Str ''-E'');
       b2 \<leftarrow> store b1 2 (Str ''-s'');
       b3 \<leftarrow> store b2 3 (Str noshell_script);
       (i, b4) \<leftarrow> copy_args 1 argv b3;
       store b4 (i + 3) Null
     }"

definition main_noshell :: "system \<Rightarrow> string list \<Rightarrow> string list \<Rightarrow> result" where
  "main_noshell sys argv env0 =
     (if length argv < 2 then
        \<lparr>r_stdout = [], r_stderr = [noshell_usage], r_execs = [], r_status = Exited 1\<rparr>
      else
        let env = noshell_env env0 in
        case python_argv argv of
          None \<Rightarrow> undefined_behaviour [] []
        | Some buf \<Rightarrow>
            (case c_vector buf of
               None \<Rightarrow> undefined_behaviour [] []
             | Some vec \<Rightarrow>
                 exec_or_fail sys
                   \<lparr>ec_path = noshell_python, ec_argv = vec, ec_envp = environ_table env\<rparr>
                   ''Failed to execute Python'' [] []))"

section \<open>agent-noshrc.c\<close>

text \<open>The UTF-8 bytes of the magnifying-glass sign that starts every diagnostic.\<close>

definition glass :: string where
  "glass = [CHR 0xF0, CHR 0x9F, CHR 0x94, CHR 0x8D]"

definition noshrc_python :: string where
  "noshrc_python = ''/root/.mobile-agent/.claude_venv/bin/python''"

definition noshrc_agent :: string where
  "noshrc_agent = ''/root/.mobile-agent/agent''"

text \<open>Lines 16 to 18: the three \<^verbatim>\<open>printf\<close> calls of the \<^verbatim>\<open>--help\<close> branch.\<close>

definition help_banner :: "string \<Rightarrow> string list" where
  "help_banner prog =
     [''Mobile Agent C Wrapper (ARM64)\<newline>'',
      ''Prevents .zshrc loading by using execve() directly\<newline>'',
      ''Usage: '' @ prog @ '' <agent-request>\<newline>'']"

definition start_line :: "nat \<Rightarrow> string" where
  "start_line argc =
     glass @ '' C WRAPPER (ARM64): Starting with '' @ show_nat argc @ '' args\<newline>''"

definition arg_line :: "nat \<Rightarrow> string \<Rightarrow> string" where
  "arg_line i arg = glass @ '' C WRAPPER: Arg '' @ show_nat i @ '': '' @ arg @ ''\<newline>''"

definition debug_line :: string where
  "debug_line = glass @ '' C WRAPPER: Adding debug flag\<newline>''"

definition exec_line :: string where
  "exec_line = glass @ '' C WRAPPER: Executing with clean environment\<newline>''"

text \<open>
  Lines 30 to 33: the loop that copies \<^verbatim>\<open>argv[i]\<close> to \<^verbatim>\<open>agent_args[i + 1]\<close> and
  writes one line to standard error for each. The state is the array and the
  chunks written to standard error so far.
\<close>

function copy_user_args ::
  "nat \<Rightarrow> string list \<Rightarrow> cptr list \<times> string list \<Rightarrow> (cptr list \<times> string list) option" where
  "copy_user_args i argv (buf, err) =
     (if i < length argv then
        (case store buf (i + 1) (Str (argv ! i)) of
           None \<Rightarrow> None
         | Some buf' \<Rightarrow> copy_user_args (i + 1) argv (buf', err @ [arg_line i (argv ! i)]))
      else Some (buf, err))"
  by pat_completeness auto
termination
  by (relation "measure (\<lambda>(i, argv, st). length argv - i)") auto

declare copy_user_args.simps [simp del]

text \<open>
  Lines 25 to 34: the array \<^verbatim>\<open>char *agent_args[argc + 2]\<close> and its filling, with the
  diagnostics of the loop appended to \<open>err\<close>.
\<close>

definition agent_args :: "string list \<Rightarrow> string list \<Rightarrow> (cptr list \<times> string list) option" where
  "agent_args argv err =
     do {
       b0 \<leftarrow> store (replicate (length argv + 2) Uninit) 0 (Str noshrc_python);
       b1 \<leftarrow> store b0 1 (Str noshrc_agent);
       (b2, err') \<leftarrow> copy_user_args 1 argv (b1, err);
       b3 \<leftarrow> store b2 (length argv + 1) Null;
       Some (b3, err')
     }"

text \<open>Lines 37 to 44 and 51 to 59: the two environment tables.\<close>

definition clean_env :: "cptr list" where
  "clean_env =
     [Str ''PATH=/usr/bin:/bin:/usr/local/bin:/sbin:/usr/sbin'',
      Str ''PYTHONPATH=/root/.mobile-agent'',
      Str ''PYTHONIOENCODING=utf-8'',
      Str ''PYTHONNOUSERSITE=1'',
      Str ''PYTHONDONTWRITEBYTECODE=1'',
      Null]"

definition clean_env_debug :: "cptr list" where
  "clean_env_debug =
     [Str ''PATH=/usr/bin:/bin:/usr/local/bin:/sbin:/usr/sbin'',
      Str ''PYTHONPATH=/root/.mobile-agent'',
      Str ''PYTHONIOENCODING=utf-8'',
      Str ''PYTHONNOUSERSITE=1'',
      Str ''PYTHONDONTWRITEBYTECODE=1'',
      Str ''AGENT_DEBUG_SUBPROCESS=1'',
      Null]"

text \<open>
  Line 60, \<^verbatim>\<open>clean_env = clean_env_debug;\<close>, assigns to \<^verbatim>\<open>clean_env\<close>, which line 37
  declares as an array. C has no assignment to an array, so the file does not
  compile as it stands, and the source does not say what the statement does. The
  model takes the way the line is repaired as a parameter: either \<^verbatim>\<open>clean_env\<close>
  becomes a pointer and the statement switches tables, which is what the comment of
  line 50 intends, or the statement is dropped and has no effect.
\<close>

datatype repair = Pointer_Switch | No_Effect

text \<open>
  Lines 47 to 61: \<^verbatim>\<open>getenv\<close>, the test \<^verbatim>\<open>debug_flag && strcmp(debug_flag, "1") == 0\<close>,
  the diagnostic of line 49, and line 60. The result is the table handed to
  \<^verbatim>\<open>execve\<close> with the chunks written to standard error.
\<close>

definition select_env ::
  "repair \<Rightarrow> string list \<Rightarrow> string list \<Rightarrow> cptr list \<times> string list" where
  "select_env rp env0 err =
     (let debug_flag = getenv ''AGENT_DEBUG_SUBPROCESS'' env0 in
      if (case debug_flag of None \<Rightarrow> False | Some v \<Rightarrow> v = ''1'')
      then ((case rp of Pointer_Switch \<Rightarrow> clean_env_debug | No_Effect \<Rightarrow> clean_env),
            err @ [debug_line])
      else (clean_env, err))"

definition main_noshrc ::
  "repair \<Rightarrow> system \<Rightarrow> string list \<Rightarrow> string list \<Rightarrow> result" where
  "main_noshrc rp sys argv env0 =
     (if 1 < length argv \<and> argv ! 1 = ''--help'' then
        \<lparr>r_stdout = help_banner (argv ! 0), r_stderr = [], r_execs = [], r_status = Exited 0\<rparr>
      else
        let err1 = [start_line (length argv)] in
        case agent_args argv err1 of
          None \<Rightarrow> undefined_behaviour [] err1
        | Some (buf, err2) \<Rightarrow>
            let (envp, err3) = select_env rp env0 err2;
                err4 = err3 @ [exec_line]
            in (case c_vector buf of
                  None \<Rightarrow> undefined_behaviour [] err4
                | Some vec \<Rightarrow>
                    (case c_vector envp of
                       None \<Rightarrow> undefined_behaviour [] err4
                     | Some tab \<Rightarrow>
                         exec_or_fail sys
                           \<lparr>ec_path = noshrc_python, ec_argv = vec, ec_envp = tab\<rparr>
                           (glass @ '' C WRAPPER: execve failed'') [] err4)))"

section \<open>Properties of tables and vectors\<close>

text \<open>
  The five variables both programs set, and the one inherited variable
  \<^verbatim>\<open>agent-noshrc.c\<close> reads.
\<close>

definition allow_list :: "string list" where
  "allow_list =
     [''PATH'', ''PYTHONPATH'', ''PYTHONIOENCODING'', ''PYTHONNOUSERSITE'',
      ''PYTHONDONTWRITEBYTECODE'']"

definition debug_toggle :: string where
  "debug_toggle = ''AGENT_DEBUG_SUBPROCESS''"

text \<open>
  A table or vector is sentinel-terminated when its last entry is NULL and every
  entry before it points to a string.
\<close>

fun is_str :: "cptr \<Rightarrow> bool" where
  "is_str (Str s) = True"
| "is_str p = False"

definition sentinel_terminated :: "cptr list \<Rightarrow> bool" where
  "sentinel_terminated t = (t \<noteq> [] \<and> last t = Null \<and> list_all is_str (butlast t))"

text \<open>A diagnostic line: not empty, and ended by a newline.\<close>

definition is_line :: "string \<Rightarrow> bool" where
  "is_line l = (l \<noteq> [] \<and> last l = CHR ''\<newline>'')"

section \<open>Sample invocations\<close>

text \<open>
  Two operating systems: one where the interpreter is missing, so that exec fails
  with errno 2 (\<^verbatim>\<open>ENOENT\<close>), and one where every exec succeeds.
\<close>

definition os_missing :: system where
  "os_missing = \<lparr>sys_exec = (\<lambda>c. Some 2), sys_strerror = (\<lambda>e. ''No such file or directory'')\<rparr>"

definition os_present :: system where
  "os_present = \<lparr>sys_exec = (\<lambda>c. None), sys_strerror = (\<lambda>e. ''No such file or directory'')\<rparr>"

text \<open>An inherited environment with the debug toggle set, and one without it.\<close>

definition env_debug :: "string list" where
  "env_debug = [''HOME=/root'', ''PATH=/tmp/evil'', ''AGENT_DEBUG_SUBPROCESS=1'']"

definition env_plain :: "string list" where
  "env_plain = [''HOME=/root'', ''LD_PRELOAD=/tmp/x.so'']"

definition env_debug_other :: "string list" where
  "env_debug_other = [''AGENT_DEBUG_SUBPROCESS=1'', ''USER=kali'']"

text \<open>Two command lines (\<^verbatim>\<open>argv[0]\<close> first).\<close>

definition argv_hello :: "string list" where
  "argv_hello = [''agent'', ''hello'', ''world'']"

definition argv_status :: "string list" where
  "argv_status = [''agent'', ''status'']"

section \<open>The loops and the arrays they fill\<close>

lemma c_vector_strs: "c_vector (map Str xs @ Null # rest) = Some (map Str xs @ [Null])"
  by (induction xs) simp_all

lemma store_Some: "i < length buf \<Longrightarrow> store buf i v = Some (buf[i := v])"
  by (simp add: store_def)

lemma copy_args_run:
  "length buf = 1024 \<Longrightarrow>
   copy_args i argv buf =
     Some (max i (min (length argv) 1020),
           take (i + 3) buf
           @ map Str (take (max i (min (length argv) 1020) - i) (drop i argv))
           @ drop (max i (min (length argv) 1020) + 3) buf)"
proof (induction i argv buf rule: copy_args.induct)
  case (1 i argv buf)
  show ?case
  proof (cases "i < length argv \<and> i < 1020")
    case False
    then have m: "max i (min (length argv) 1020) = i" by auto
    have "copy_args i argv buf = Some (i, buf)"
      by (subst copy_args.simps) (use False in auto)
    then show ?thesis by (simp add: m)
  next
    case True
    let ?m = "max i (min (length argv) 1020)"
    let ?buf' = "buf[i + 3 := Str (argv ! i)]"
    from True have m: "?m = min (length argv) 1020" and im: "i < ?m" by auto
    from True "1.prems" have st: "store buf (i + 3) (Str (argv ! i)) = Some ?buf'"
      by (simp add: store_Some)
    have len: "length ?buf' = 1024" using "1.prems" by simp
    have m': "max (i + 1) (min (length argv) 1020) = ?m" using True by auto
    have ih: "copy_args (i + 1) argv ?buf' =
      Some (?m, take (i + 1 + 3) ?buf' @ map Str (take (?m - (i + 1)) (drop (i + 1) argv))
                @ drop (?m + 3) ?buf')"
      using "1.IH" [OF True st len] unfolding m' .
    have t: "take (i + 1 + 3) ?buf' = take (i + 3) buf @ [Str (argv ! i)]"
    proof -
      have "i + 3 < length ?buf'" using True "1.prems" by simp
      then have "take (Suc (i + 3)) ?buf' = take (i + 3) ?buf' @ [?buf' ! (i + 3)]"
        by (rule take_Suc_conv_app_nth)
      moreover have "i + 1 + 3 = Suc (i + 3)" by simp
      moreover have "?buf' ! (i + 3) = Str (argv ! i)" using True "1.prems" by simp
      moreover have "take (i + 3) ?buf' = take (i + 3) buf" by simp
      ultimately show ?thesis by (simp only:)
    qed
    have d: "drop (?m + 3) ?buf' = drop (?m + 3) buf"
      using im by simp
    have a: "take (?m - i) (drop i argv) = argv ! i # take (?m - (i + 1)) (drop (i + 1) argv)"
    proof -
      have "drop i argv = argv ! i # drop (i + 1) argv"
        using True by (simp add: Cons_nth_drop_Suc)
      moreover have "?m - i = Suc (?m - (i + 1))" using im by simp
      ultimately show ?thesis by simp
    qed
    have "copy_args i argv buf = copy_args (i + 1) argv ?buf'"
      by (subst copy_args.simps) (simp add: True st)
    also note ih
    finally show ?thesis
      by (simp only: t d a append_Cons append_Nil append_assoc list.map)
  qed
qed

lemma buf1024: "replicate 1024 x = [x, x, x, x] @ replicate 1020 x"
proof -
  have "replicate (4 + 1020) x = replicate 4 x @ replicate 1020 x"
    by (rule replicate_add)
  moreover have "replicate 4 x = [x, x, x, x]"
    by (simp add: numeral_eq_Suc)
  ultimately show ?thesis by simp
qed

lemma python_argv_eq:
  "python_argv argv =
     Some (map Str ([noshell_python, ''-E'', ''-s'', noshell_script] @ take 1019 (tl argv))
           @ Null # replicate (1019 - min 1019 (length argv - 1)) Uninit)"
proof -
  let ?py = "[Str noshell_python, Str ''-E'', Str ''-s'', Str noshell_script]"
  let ?b3 = "?py @ replicate 1020 Uninit"
  let ?m = "max 1 (min (length argv) 1020)"
  define k where "k = min 1019 (length argv - 1)"
  define args where "args = map Str (take 1019 (tl argv))"
  have m: "?m = Suc k" and k: "k \<le> 1019" by (auto simp: k_def)
  let ?U = "replicate 1020 Uninit"
  have s0: "store (replicate 1024 Uninit) 0 (Str noshell_python)
            = Some ([Str noshell_python, Uninit, Uninit, Uninit] @ ?U)"
    by (simp add: buf1024 store_def)
  have s1: "store ([Str noshell_python, Uninit, Uninit, Uninit] @ ?U) 1 (Str ''-E'')
            = Some ([Str noshell_python, Str ''-E'', Uninit, Uninit] @ ?U)"
    by (simp add: store_def)
  have s2: "store ([Str noshell_python, Str ''-E'', Uninit, Uninit] @ ?U) 2 (Str ''-s'')
            = Some ([Str noshell_python, Str ''-E'', Str ''-s'', Uninit] @ ?U)"
    by (simp add: store_def numeral_2_eq_2)
  have s3: "store ([Str noshell_python, Str ''-E'', Str ''-s'', Uninit] @ ?U) 3
              (Str noshell_script) = Some ?b3"
    by (simp add: store_def numeral_3_eq_3)
  have len: "length ?b3 = 1024" by simp
  have largs: "length args = k"
    by (simp add: args_def k_def min.commute)
  have tk: "map Str (take (?m - 1) (drop 1 argv)) = args"
  proof -
    have "drop 1 argv = tl argv" by (simp add: drop_Suc)
    moreover have "take (min 1019 (length (tl argv))) (tl argv) = take 1019 (tl argv)"
      by (simp add: min_def)
    moreover have "?m - 1 = min 1019 (length (tl argv))" by auto
    ultimately show ?thesis by (simp only: args_def)
  qed
  have dr: "drop (?m + 3) ?b3 = replicate (1020 - k) Uninit"
  proof -
    have "Suc k + 3 = Suc (Suc (Suc (Suc k)))" by simp
    then have "drop (Suc k + 3) ?b3 = drop k (replicate 1020 Uninit)"
      by (simp only: append_Cons append_Nil drop_Suc_Cons)
    then have "drop (Suc k + 3) ?b3 = replicate (1020 - k) Uninit" by simp
    then show ?thesis by (simp only: m)
  qed
  have "copy_args 1 argv ?b3 =
      Some (?m, take (1 + 3) ?b3 @ map Str (take (?m - 1) (drop 1 argv)) @ drop (?m + 3) ?b3)"
    by (rule copy_args_run [OF len])
  also have "take (1 + 3) ?b3 = ?py" by simp
  finally have "copy_args 1 argv ?b3 = Some (?m, ?py @ args @ replicate (1020 - k) Uninit)"
    by (simp only: tk dr)
  then have loop: "copy_args 1 argv ?b3 = Some (Suc k, ?py @ args @ replicate (1020 - k) Uninit)"
    by (simp only: m)
  have rep: "replicate (1020 - k) Uninit = Uninit # replicate (1019 - k) Uninit"
  proof -
    have "1020 - k = Suc (1019 - k)" using k by simp
    then show ?thesis by (simp only: replicate_Suc)
  qed
  have "store (?py @ args @ replicate (1020 - k) Uninit) (Suc k + 3) Null =
        Some (?py @ args @ Null # replicate (1019 - k) Uninit)"
  proof -
    have "(?py @ args @ Uninit # replicate (1019 - k) Uninit)[Suc k + 3 := Null]
          = ?py @ args @ Null # replicate (1019 - k) Uninit"
      by (simp add: largs list_update_append)
    moreover have "Suc k + 3 < length (?py @ args @ Uninit # replicate (1019 - k) Uninit)"
      using k by (simp add: largs)
    ultimately show ?thesis by (simp only: rep store_def if_True)
  qed
  then have "python_argv argv = Some (?py @ args @ Null # replicate (1019 - k) Uninit)"
    unfolding python_argv_def
    by (simp only: s0 s1 s2 s3 loop Option.bind.simps prod.case)
  then show ?thesis
    by (simp add: args_def k_def)
qed

lemma copy_user_args_run:
  "length buf = length argv + 2 \<Longrightarrow>
   copy_user_args i argv (buf, err) =
     Some (take (i + 1) buf @ map Str (drop i argv) @ drop (max i (length argv) + 1) buf,
           err @ map (\<lambda>j. arg_line j (argv ! j)) [i..<length argv])"
proof (induction i argv "(buf, err)" arbitrary: buf err rule: copy_user_args.induct)
  case (1 i argv buf err)
  show ?case
  proof (cases "i < length argv")
    case False
    have "copy_user_args i argv (buf, err) = Some (buf, err)"
      by (subst copy_user_args.simps) (use False in simp)
    moreover have "max i (length argv) = i" "drop i argv = []" "[i..<length argv] = []"
      using False by auto
    ultimately show ?thesis by simp
  next
    case True
    let ?n = "length argv"
    let ?buf' = "buf[i + 1 := Str (argv ! i)]"
    let ?err' = "err @ [arg_line i (argv ! i)]"
    from True "1.prems" have st: "store buf (i + 1) (Str (argv ! i)) = Some ?buf'"
      by (simp add: store_def)
    have len: "length ?buf' = ?n + 2" using "1.prems" by simp
    have mx: "max (i + 1) ?n = ?n" "max i ?n = ?n" using True by auto
    have ih: "copy_user_args (i + 1) argv (?buf', ?err') =
      Some (take (i + 1 + 1) ?buf' @ map Str (drop (i + 1) argv) @ drop (?n + 1) ?buf',
            ?err' @ map (\<lambda>j. arg_line j (argv ! j)) [i + 1..<?n])"
      using "1.hyps" [OF True st len] unfolding mx .
    have t: "take (i + 1 + 1) ?buf' = take (i + 1) buf @ [Str (argv ! i)]"
    proof -
      have "i + 1 < length ?buf'" using True "1.prems" by simp
      then have "take (Suc (i + 1)) ?buf' = take (i + 1) ?buf' @ [?buf' ! (i + 1)]"
        by (rule take_Suc_conv_app_nth)
      moreover have "i + 1 + 1 = Suc (i + 1)" by simp
      moreover have "?buf' ! (i + 1) = Str (argv ! i)" using True "1.prems" by simp
      moreover have "take (i + 1) ?buf' = take (i + 1) buf" by simp
      ultimately show ?thesis by (simp only:)
    qed
    have d: "drop (?n + 1) ?buf' = drop (?n + 1) buf"
      using True by simp
    have a: "drop i argv = argv ! i # drop (i + 1) argv"
      using True by (simp add: Cons_nth_drop_Suc)
    have u: "[i..<?n] = i # [i + 1..<?n]"
      using True by (simp add: upt_conv_Cons)
    have "copy_user_args i argv (buf, err) = copy_user_args (i + 1) argv (?buf', ?err')"
      by (subst copy_user_args.simps) (simp only: True st if_True option.case)
    also note ih
    finally show ?thesis
      by (simp only: t d a u mx append_Cons append_Nil append_assoc list.map)
  qed
qed

lemma agent_args_nonempty:
  assumes "argv \<noteq> []"
  shows "agent_args argv err =
     Some (map Str ([noshrc_python, noshrc_agent] @ tl argv) @ [Null],
           err @ map (\<lambda>j. arg_line j (argv ! j)) [1..<length argv])"
proof -
  let ?n = "length argv"
  let ?py = "[Str noshrc_python, Str noshrc_agent]"
  obtain k where n: "?n = Suc k" using assms by (cases argv) auto
  let ?b1 = "?py @ replicate ?n Uninit"
  have rep: "replicate (?n + 2) Uninit = [Uninit, Uninit] @ replicate ?n Uninit"
    by (simp add: replicate_append_same)
  have s0: "store (replicate (?n + 2) Uninit) 0 (Str noshrc_python)
            = Some ([Str noshrc_python, Uninit] @ replicate ?n Uninit)"
    by (simp add: rep store_def)
  have s1: "store ([Str noshrc_python, Uninit] @ replicate ?n Uninit) 1 (Str noshrc_agent)
            = Some ?b1"
    by (simp add: store_def)
  have len: "length ?b1 = ?n + 2" by simp
  have tk: "take (1 + 1) ?b1 = ?py" by simp
  have dp: "drop 1 argv = tl argv" by (simp add: drop_Suc)
  have dr: "drop (max 1 ?n + 1) ?b1 = [Uninit]"
  proof -
    have "max 1 ?n + 1 = Suc (Suc k)" using n by simp
    then have "drop (max 1 ?n + 1) ?b1 = drop k (replicate (Suc k) Uninit)"
      by (simp only: append_Cons append_Nil drop_Suc_Cons n)
    also have "\<dots> = replicate (Suc k - k) Uninit" by (rule drop_replicate)
    finally show ?thesis by simp
  qed
  have "copy_user_args 1 argv (?b1, err) =
     Some (take (1 + 1) ?b1 @ map Str (drop 1 argv) @ drop (max 1 ?n + 1) ?b1,
           err @ map (\<lambda>j. arg_line j (argv ! j)) [1..<?n])"
    by (rule copy_user_args_run [OF len])
  then have loop: "copy_user_args 1 argv (?b1, err) =
     Some (?py @ map Str (tl argv) @ [Uninit], err @ map (\<lambda>j. arg_line j (argv ! j)) [1..<?n])"
    by (simp only: tk dp dr)
  have fin: "store (?py @ map Str (tl argv) @ [Uninit]) (?n + 1) Null =
     Some (?py @ map Str (tl argv) @ [Null])"
  proof -
    have l: "length (map Str (tl argv)) = k" using n by simp
    have "?n + 1 = Suc (Suc k)" using n by simp
    then show ?thesis
      by (simp add: store_def l list_update_append)
  qed
  show ?thesis
    unfolding agent_args_def
    by (simp only: s0 s1 loop fin Option.bind.simps prod.case) simp
qed

lemma agent_args_empty: "agent_args [] err = Some ([Str noshrc_python, Null], err)"
  by (simp add: agent_args_def store_def copy_user_args.simps)

section \<open>What each program does, in closed form\<close>

lemma noshell_env_eq:
  "noshell_env env0 =
     [''PATH=/usr/bin:/bin:/usr/local/bin'', ''PYTHONIOENCODING=utf-8'',
      ''PYTHONPATH=/root/Tools/Mobile-Agent'', ''PYTHONDONTWRITEBYTECODE=1'',
      ''PYTHONNOUSERSITE=1'']"
  by (simp add: noshell_env_def clearenv_def env_match_def)

lemma main_noshell_run:
  assumes "2 \<le> length argv"
  shows "main_noshell sys argv env0 =
     exec_or_fail sys
       \<lparr>ec_path = noshell_python,
        ec_argv = map Str ([noshell_python, ''-E'', ''-s'', noshell_script] @ take 1019 (tl argv))
                  @ [Null],
        ec_envp = environ_table (noshell_env env0)\<rparr>
       ''Failed to execute Python'' [] []"
proof -
  from assms have "\<not> length argv < 2" by simp
  then show ?thesis
    unfolding main_noshell_def
    by (simp only: if_False Let_def python_argv_eq c_vector_strs option.case)
qed

lemma select_env_fst:
  "fst (select_env rp env0 err) =
     (if getenv debug_toggle env0 = Some ''1'' \<and> rp = Pointer_Switch then clean_env_debug else clean_env)"
  by (cases rp) (simp_all add: select_env_def debug_toggle_def split: option.split)

lemma select_env_snd:
  "snd (select_env rp env0 err) =
     (if getenv debug_toggle env0 = Some ''1'' then err @ [debug_line] else err)"
  by (simp add: select_env_def debug_toggle_def split: option.split)

lemma c_vector_clean_env: "c_vector clean_env = Some clean_env"
  by (simp add: clean_env_def)

lemma c_vector_clean_env_debug: "c_vector clean_env_debug = Some clean_env_debug"
  by (simp add: clean_env_debug_def)

lemma c_vector_select_env: "c_vector (fst (select_env rp env0 err)) = Some (fst (select_env rp env0 err))"
  by (simp add: select_env_fst c_vector_clean_env c_vector_clean_env_debug)

lemma agent_args_eq:
  "agent_args argv err =
     Some ((if argv = [] then [Str noshrc_python]
            else map Str ([noshrc_python, noshrc_agent] @ tl argv)) @ [Null],
           err @ map (\<lambda>j. arg_line j (argv ! j)) [1..<length argv])"
  by (cases "argv = []") (simp_all add: agent_args_empty agent_args_nonempty)

lemma main_noshrc_run:
  assumes "\<not> (1 < length argv \<and> argv ! 1 = ''--help'')"
  shows "main_noshrc rp sys argv env0 =
     exec_or_fail sys
       \<lparr>ec_path = noshrc_python,
        ec_argv = (if argv = [] then [Str noshrc_python]
                   else map Str ([noshrc_python, noshrc_agent] @ tl argv)) @ [Null],
        ec_envp = (if getenv debug_toggle env0 = Some ''1'' \<and> rp = Pointer_Switch then clean_env_debug else clean_env)\<rparr>
       (glass @ '' C WRAPPER: execve failed'') []
       (start_line (length argv) # map (\<lambda>j. arg_line j (argv ! j)) [1..<length argv]
        @ (if getenv debug_toggle env0 = Some ''1'' then [debug_line] else [])
        @ [exec_line])"
proof -
  let ?vec = "(if argv = [] then [Str noshrc_python]
               else map Str ([noshrc_python, noshrc_agent] @ tl argv)) @ [Null]"
  have cv: "c_vector ?vec = Some ?vec"
  proof (cases "argv = []")
    case True
    then show ?thesis by simp
  next
    case False
    then show ?thesis
      using c_vector_strs [of "[noshrc_python, noshrc_agent] @ tl argv" "[]"] by simp
  qed
  obtain envp err3 where se: "select_env rp env0
      ([start_line (length argv)] @ map (\<lambda>j. arg_line j (argv ! j)) [1..<length argv])
      = (envp, err3)"
    by (cases "select_env rp env0
      ([start_line (length argv)] @ map (\<lambda>j. arg_line j (argv ! j)) [1..<length argv])")
  from se have envp: "envp = (if getenv debug_toggle env0 = Some ''1'' \<and> rp = Pointer_Switch then clean_env_debug else clean_env)"
    using select_env_fst [of rp env0 "[start_line (length argv)] @ map (\<lambda>j. arg_line j (argv ! j)) [1..<length argv]"]
    by simp
  from se have err3: "err3 = start_line (length argv) # map (\<lambda>j. arg_line j (argv ! j)) [1..<length argv]
        @ (if getenv debug_toggle env0 = Some ''1'' then [debug_line] else [])"
    using select_env_snd [of rp env0 "[start_line (length argv)] @ map (\<lambda>j. arg_line j (argv ! j)) [1..<length argv]"]
    by simp
  have ce: "c_vector envp = Some envp"
    unfolding envp by (simp add: c_vector_clean_env c_vector_clean_env_debug)
  show ?thesis
    unfolding main_noshrc_def
    apply (simp only: assms if_False Let_def agent_args_eq option.case prod.case se cv ce)
    apply (simp only: envp err3)
    apply simp
    done
qed

lemma r_execs_exec_or_fail [simp]: "r_execs (exec_or_fail sys call msg out err) = [call]"
  by (simp add: exec_or_fail_def split: option.split)

lemma r_stdout_exec_or_fail [simp]: "r_stdout (exec_or_fail sys call msg out err) = out"
  by (simp add: exec_or_fail_def split: option.split)

lemma r_stderr_exec_or_fail:
  "r_stderr (exec_or_fail sys call msg out err) =
     (case sys_exec sys call of None \<Rightarrow> err | Some errno \<Rightarrow> err @ [perror sys msg errno])"
  by (simp add: exec_or_fail_def split: option.split)

lemma r_status_exec_or_fail:
  "r_status (exec_or_fail sys call msg out err) =
     (case sys_exec sys call of None \<Rightarrow> Replaced | Some errno \<Rightarrow> Exited 1)"
  by (simp add: exec_or_fail_def split: option.split)

lemma main_noshell_usage:
  "length argv < 2 \<Longrightarrow> main_noshell sys argv env0 =
     \<lparr>r_stdout = [], r_stderr = [noshell_usage], r_execs = [], r_status = Exited 1\<rparr>"
  by (simp add: main_noshell_def)

lemma main_noshrc_help:
  "1 < length argv \<and> argv ! 1 = ''--help'' \<Longrightarrow> main_noshrc rp sys argv env0 =
     \<lparr>r_stdout = help_banner (argv ! 0), r_stderr = [], r_execs = [], r_status = Exited 0\<rparr>"
  by (simp add: main_noshrc_def)

section \<open>The environment table\<close>

lemma noshell_table_facts:
  "set (table_keys (environ_table (noshell_env env0))) \<subseteq> set allow_list"
  "distinct (table_keys (environ_table (noshell_env env0)))"
  "sentinel_terminated (environ_table (noshell_env env0))"
  by (simp_all add: noshell_env_eq environ_table_def entry_key_def allow_list_def
      sentinel_terminated_def)

lemma clean_env_facts:
  "set (table_keys clean_env) \<subseteq> set allow_list"
  "distinct (table_keys clean_env)"
  "sentinel_terminated clean_env"
  by (simp_all add: clean_env_def entry_key_def allow_list_def sentinel_terminated_def)

lemma clean_env_debug_facts:
  "set (table_keys clean_env_debug) \<subseteq> set allow_list \<union> {debug_toggle}"
  "distinct (table_keys clean_env_debug)"
  "sentinel_terminated clean_env_debug"
  by (simp_all add: clean_env_debug_def entry_key_def allow_list_def debug_toggle_def
      sentinel_terminated_def)

lemma noshell_execs:
  "r_execs (main_noshell sys argv env0) =
     (if length argv < 2 then []
      else [\<lparr>ec_path = noshell_python,
             ec_argv = map Str ([noshell_python, ''-E'', ''-s'', noshell_script]
                                @ take 1019 (tl argv)) @ [Null],
             ec_envp = environ_table (noshell_env env0)\<rparr>])"
  by (cases "length argv < 2") (simp_all add: main_noshell_usage main_noshell_run)

lemma noshrc_execs:
  "r_execs (main_noshrc rp sys argv env0) =
     (if 1 < length argv \<and> argv ! 1 = ''--help'' then []
      else [\<lparr>ec_path = noshrc_python,
             ec_argv = (if argv = [] then [Str noshrc_python]
                        else map Str ([noshrc_python, noshrc_agent] @ tl argv)) @ [Null],
             ec_envp = (if getenv debug_toggle env0 = Some ''1'' \<and> rp = Pointer_Switch then clean_env_debug
                        else clean_env)\<rparr>])"
proof (cases "1 < length argv \<and> argv ! 1 = ''--help''")
  case True
  then show ?thesis by (simp add: main_noshrc_help)
next
  case False
  then show ?thesis by (simp only: main_noshrc_run [OF False] r_execs_exec_or_fail if_False)
qed

text \<open>
  C1. Whatever environment the launcher inherits, the table handed to the exec call
  has keys from the allow-list of five only (in \<^verbatim>\<open>agent-noshrc\<close> the debug toggle
  \<^verbatim>\<open>AGENT_DEBUG_SUBPROCESS\<close> may be added), no key twice, and a NULL sentinel at its
  end. Nothing else of the inherited environment reaches it: any two runs of
  \<^verbatim>\<open>agent-noshell\<close> pass the same table, and two runs of \<^verbatim>\<open>agent-noshrc\<close> whose
  environments give the same answer to \<^verbatim>\<open>getenv("AGENT_DEBUG_SUBPROCESS")\<close> pass the
  same table.
\<close>

theorem env_table_from_allow_list:
  "(c \<in> set (r_execs (main_noshell sys argv env0)) \<longrightarrow>
      set (table_keys (ec_envp c)) \<subseteq> set allow_list
      \<and> distinct (table_keys (ec_envp c))
      \<and> sentinel_terminated (ec_envp c)
      \<and> (\<forall>c' \<in> set (r_execs (main_noshell sys' argv' env0')). ec_envp c' = ec_envp c))
   \<and> (d \<in> set (r_execs (main_noshrc rp sys argv env0)) \<longrightarrow>
      set (table_keys (ec_envp d)) \<subseteq> set allow_list \<union> {debug_toggle}
      \<and> distinct (table_keys (ec_envp d))
      \<and> sentinel_terminated (ec_envp d)
      \<and> (getenv debug_toggle env0' = getenv debug_toggle env0 \<longrightarrow>
           (\<forall>d' \<in> set (r_execs (main_noshrc rp sys' argv' env0')). ec_envp d' = ec_envp d)))"
proof (intro conjI impI)
  assume c: "c \<in> set (r_execs (main_noshell sys argv env0))"
  then have e: "ec_envp c = environ_table (noshell_env env0)"
    by (auto simp: noshell_execs split: if_splits)
  show "set (table_keys (ec_envp c)) \<subseteq> set allow_list"
    "distinct (table_keys (ec_envp c))" "sentinel_terminated (ec_envp c)"
    unfolding e by (rule noshell_table_facts)+
  show "\<forall>c' \<in> set (r_execs (main_noshell sys' argv' env0')). ec_envp c' = ec_envp c"
    unfolding e by (auto simp: noshell_execs noshell_env_eq split: if_splits)
next
  assume d: "d \<in> set (r_execs (main_noshrc rp sys argv env0))"
  then have e: "ec_envp d =
      (if getenv debug_toggle env0 = Some ''1'' \<and> rp = Pointer_Switch then clean_env_debug else clean_env)"
    by (auto simp: noshrc_execs split: if_splits)
  show "set (table_keys (ec_envp d)) \<subseteq> set allow_list \<union> {debug_toggle}"
    unfolding e using clean_env_facts(1) clean_env_debug_facts(1) by auto
  show "distinct (table_keys (ec_envp d))"
    unfolding e using clean_env_facts(2) clean_env_debug_facts(2) by simp
  show "sentinel_terminated (ec_envp d)"
    unfolding e using clean_env_facts(3) clean_env_debug_facts(3) by simp
  assume "getenv debug_toggle env0' = getenv debug_toggle env0"
  then show "\<forall>d' \<in> set (r_execs (main_noshrc rp sys' argv' env0')). ec_envp d' = ec_envp d"
    unfolding e by (auto simp: noshrc_execs split: if_splits)
qed

theorem env_table_from_allow_list_witness:
  "(let c = hd (r_execs (main_noshell os_present argv_hello env_debug));
        c' = hd (r_execs (main_noshell os_missing argv_status env_plain));
        d = hd (r_execs (main_noshrc Pointer_Switch os_present argv_hello env_debug));
        d' = hd (r_execs (main_noshrc Pointer_Switch os_missing argv_status env_debug_other))
    in c \<in> set (r_execs (main_noshell os_present argv_hello env_debug))
       \<and> c' \<in> set (r_execs (main_noshell os_missing argv_status env_plain))
       \<and> d \<in> set (r_execs (main_noshrc Pointer_Switch os_present argv_hello env_debug))
       \<and> d' \<in> set (r_execs (main_noshrc Pointer_Switch os_missing argv_status env_debug_other))
       \<and> getenv debug_toggle env_debug_other = getenv debug_toggle env_debug
       \<and> distinct (table_keys (ec_envp c)) \<and> sentinel_terminated (ec_envp c)
       \<and> ec_envp c' = ec_envp c
       \<and> distinct (table_keys (ec_envp d)) \<and> sentinel_terminated (ec_envp d)
       \<and> ec_envp d' = ec_envp d
       \<and> ec_envp c =
           [Str ''PATH=/usr/bin:/bin:/usr/local/bin'', Str ''PYTHONIOENCODING=utf-8'',
            Str ''PYTHONPATH=/root/Tools/Mobile-Agent'', Str ''PYTHONDONTWRITEBYTECODE=1'',
            Str ''PYTHONNOUSERSITE=1'', Null]
       \<and> ec_envp d =
           [Str ''PATH=/usr/bin:/bin:/usr/local/bin:/sbin:/usr/sbin'',
            Str ''PYTHONPATH=/root/.mobile-agent'', Str ''PYTHONIOENCODING=utf-8'',
            Str ''PYTHONNOUSERSITE=1'', Str ''PYTHONDONTWRITEBYTECODE=1'',
            Str ''AGENT_DEBUG_SUBPROCESS=1'', Null])"
proof -
  let ?c = "hd (r_execs (main_noshell os_present argv_hello env_debug))"
  let ?c' = "hd (r_execs (main_noshell os_missing argv_status env_plain))"
  let ?d = "hd (r_execs (main_noshrc Pointer_Switch os_present argv_hello env_debug))"
  let ?d' = "hd (r_execs (main_noshrc Pointer_Switch os_missing argv_status env_debug_other))"
  have c: "?c \<in> set (r_execs (main_noshell os_present argv_hello env_debug))"
    by (simp add: noshell_execs argv_hello_def)
  have c': "?c' \<in> set (r_execs (main_noshell os_missing argv_status env_plain))"
    by (simp add: noshell_execs argv_status_def)
  have d: "?d \<in> set (r_execs (main_noshrc Pointer_Switch os_present argv_hello env_debug))"
    by (simp add: noshrc_execs argv_hello_def)
  have d': "?d' \<in> set (r_execs (main_noshrc Pointer_Switch os_missing argv_status env_debug_other))"
    by (simp add: noshrc_execs argv_status_def)
  have g: "getenv debug_toggle env_debug_other = getenv debug_toggle env_debug"
    by (simp add: debug_toggle_def env_debug_other_def env_debug_def env_match_def)
  from env_table_from_allow_list
    [of ?c os_present argv_hello env_debug os_missing argv_status env_plain ?d Pointer_Switch]
    c c'
  have 1: "distinct (table_keys (ec_envp ?c))" "sentinel_terminated (ec_envp ?c)"
    "ec_envp ?c' = ec_envp ?c"
    by blast+
  from env_table_from_allow_list
    [of ?c os_present argv_hello env_debug os_missing argv_status env_debug_other ?d Pointer_Switch]
    d d' g
  have 2: "distinct (table_keys (ec_envp ?d))" "sentinel_terminated (ec_envp ?d)"
    "ec_envp ?d' = ec_envp ?d"
    by blast+
  have 3: "ec_envp ?c =
           [Str ''PATH=/usr/bin:/bin:/usr/local/bin'', Str ''PYTHONIOENCODING=utf-8'',
            Str ''PYTHONPATH=/root/Tools/Mobile-Agent'', Str ''PYTHONDONTWRITEBYTECODE=1'',
            Str ''PYTHONNOUSERSITE=1'', Null]"
    by (simp add: noshell_execs argv_hello_def noshell_env_eq environ_table_def)
  have "getenv debug_toggle env_debug = Some ''1''"
    by (simp add: debug_toggle_def env_debug_def env_match_def)
  then have 4: "ec_envp ?d =
           [Str ''PATH=/usr/bin:/bin:/usr/local/bin:/sbin:/usr/sbin'',
            Str ''PYTHONPATH=/root/.mobile-agent'', Str ''PYTHONIOENCODING=utf-8'',
            Str ''PYTHONNOUSERSITE=1'', Str ''PYTHONDONTWRITEBYTECODE=1'',
            Str ''AGENT_DEBUG_SUBPROCESS=1'', Null]"
    by (simp add: noshrc_execs argv_hello_def clean_env_debug_def)
  show ?thesis
    unfolding Let_def using c c' d d' g 1 2 3 4 by blast
qed

section \<open>The argument vector\<close>

lemma python_argv_vector:
  "\<exists>buf. python_argv argv = Some buf \<and> length buf = 1024
     \<and> c_vector buf = Some (map Str ([noshell_python, ''-E'', ''-s'', noshell_script]
                                      @ take 1019 (tl argv)) @ [Null])"
proof -
  let ?buf = "map Str ([noshell_python, ''-E'', ''-s'', noshell_script] @ take 1019 (tl argv))
           @ Null # replicate (1019 - min 1019 (length argv - 1)) Uninit"
  have "python_argv argv = Some ?buf" by (rule python_argv_eq)
  moreover have "length ?buf = 1024" by (simp add: min.commute)
  moreover have "c_vector ?buf = Some (map Str ([noshell_python, ''-E'', ''-s'', noshell_script]
                                      @ take 1019 (tl argv)) @ [Null])"
    by (rule c_vector_strs)
  ultimately show ?thesis by blast
qed

lemma nth_after_prefix:
  "j < length args \<Longrightarrow> (map Str (pre @ args) @ [Null]) ! (length pre + j) = Str (args ! j)"
  by (simp add: nth_append)

text \<open>
  C2. The vector handed to exec is the fixed prefix, then the caller's arguments in
  their order and unchanged, then the NULL sentinel: \<open>L + 4 + 1\<close> entries in
  \<^verbatim>\<open>agent-noshell\<close> for \<open>1 \<le> L \<le> 1019\<close> (the copy loop stops at index 1020 of
  \<^verbatim>\<open>argv\<close>, so 1020 arguments with the program name is what it takes whole), and
  \<open>L + 2 + 1\<close> entries in \<^verbatim>\<open>agent-noshrc\<close> for every \<open>L\<close>, on every run that builds
  a vector (one whose first argument is not \<^verbatim>\<open>--help\<close>).
\<close>

theorem argument_vector_layout:
  "(1 \<le> length args \<and> length args \<le> 1019 \<longrightarrow>
      (\<exists>c. r_execs (main_noshell sys (prog # args) env0) = [c]
         \<and> ec_argv c = map Str ([noshell_python, ''-E'', ''-s'', noshell_script] @ args) @ [Null]
         \<and> length (ec_argv c) = length args + 4 + 1
         \<and> last (ec_argv c) = Null
         \<and> (\<forall>j < length args. ec_argv c ! (4 + j) = Str (args ! j))))
   \<and> (\<not> (args \<noteq> [] \<and> hd args = ''--help'') \<longrightarrow>
      (\<exists>d. r_execs (main_noshrc rp sys (prog # args) env0) = [d]
         \<and> ec_argv d = map Str ([noshrc_python, noshrc_agent] @ args) @ [Null]
         \<and> length (ec_argv d) = length args + 2 + 1
         \<and> last (ec_argv d) = Null
         \<and> (\<forall>j < length args. ec_argv d ! (2 + j) = Str (args ! j))))"
proof (intro conjI impI)
  assume a: "1 \<le> length args \<and> length args \<le> 1019"
  let ?v = "map Str ([noshell_python, ''-E'', ''-s'', noshell_script] @ args) @ [Null]"
  let ?c = "\<lparr>ec_path = noshell_python, ec_argv = ?v,
             ec_envp = environ_table (noshell_env env0)\<rparr>"
  from a have "r_execs (main_noshell sys (prog # args) env0) = [?c]"
    by (auto simp: noshell_execs)
  moreover have "length ?v = length args + 4 + 1" "last ?v = Null" by simp_all
  moreover have "\<forall>j < length args. ?v ! (4 + j) = Str (args ! j)"
    using nth_after_prefix [of _ args "[noshell_python, ''-E'', ''-s'', noshell_script]"]
    by simp
  ultimately show "\<exists>c. r_execs (main_noshell sys (prog # args) env0) = [c]
         \<and> ec_argv c = ?v
         \<and> length (ec_argv c) = length args + 4 + 1
         \<and> last (ec_argv c) = Null
         \<and> (\<forall>j < length args. ec_argv c ! (4 + j) = Str (args ! j))"
    by simp
next
  assume h: "\<not> (args \<noteq> [] \<and> hd args = ''--help'')"
  let ?v = "map Str ([noshrc_python, noshrc_agent] @ args) @ [Null]"
  let ?d = "\<lparr>ec_path = noshrc_python, ec_argv = ?v,
             ec_envp = (if getenv debug_toggle env0 = Some ''1'' \<and> rp = Pointer_Switch then clean_env_debug
                        else clean_env)\<rparr>"
  from h have "\<not> (1 < length (prog # args) \<and> (prog # args) ! 1 = ''--help'')"
    by (cases args) auto
  then have "r_execs (main_noshrc rp sys (prog # args) env0) = [?d]"
    by (simp add: noshrc_execs)
  moreover have "length ?v = length args + 2 + 1" "last ?v = Null" by simp_all
  moreover have "\<forall>j < length args. ?v ! (2 + j) = Str (args ! j)"
    using nth_after_prefix [of _ args "[noshrc_python, noshrc_agent]"]
    by simp
  ultimately show "\<exists>d. r_execs (main_noshrc rp sys (prog # args) env0) = [d]
         \<and> ec_argv d = ?v
         \<and> length (ec_argv d) = length args + 2 + 1
         \<and> last (ec_argv d) = Null
         \<and> (\<forall>j < length args. ec_argv d ! (2 + j) = Str (args ! j))"
    by simp
qed

theorem argument_vector_layout_witness:
  "1 \<le> length [''hello'', ''world''] \<and> length [''hello'', ''world''] \<le> 1019
   \<and> \<not> ([''hello'', ''world''] \<noteq> [] \<and> hd [''hello'', ''world''] = ''--help'')
   \<and> (0::nat) < length [''hello'', ''world''] \<and> (1::nat) < length [''hello'', ''world'']
   \<and> map ec_argv (r_execs (main_noshell os_present (''agent'' # [''hello'', ''world'']) env_plain))
       = [[Str ''/usr/bin/python3'', Str ''-E'', Str ''-s'', Str ''/root/Tools/Mobile-Agent/agent-direct'',
           Str ''hello'', Str ''world'', Null]]
   \<and> map ec_argv
        (r_execs (main_noshrc Pointer_Switch os_present (''agent'' # [''hello'', ''world'']) env_plain))
       = [[Str ''/root/.mobile-agent/.claude_venv/bin/python'', Str ''/root/.mobile-agent/agent'',
           Str ''hello'', Str ''world'', Null]]"
proof -
  have h1: "1 \<le> length [''hello'', ''world''] \<and> length [''hello'', ''world''] \<le> 1019"
    by simp
  have h2: "\<not> ([''hello'', ''world''] \<noteq> [] \<and> hd [''hello'', ''world''] = ''--help'')"
    by simp
  from argument_vector_layout
    [of "[''hello'', ''world'']" os_present "''agent''" env_plain Pointer_Switch] h1 h2
  obtain c d where
    "r_execs (main_noshell os_present (''agent'' # [''hello'', ''world'']) env_plain) = [c]"
    "ec_argv c = map Str ([noshell_python, ''-E'', ''-s'', noshell_script] @ [''hello'', ''world''])
                 @ [Null]"
    "r_execs (main_noshrc Pointer_Switch os_present (''agent'' # [''hello'', ''world'']) env_plain) = [d]"
    "ec_argv d = map Str ([noshrc_python, noshrc_agent] @ [''hello'', ''world'']) @ [Null]"
    by blast
  then show ?thesis
    by (simp add: noshell_python_def noshell_script_def noshrc_python_def noshrc_agent_def)
qed

text \<open>
  C7. With more than 1019 caller arguments \<^verbatim>\<open>agent-noshell\<close> stays inside its array
  of 1024 entries: every write succeeds, the vector is the prefix, the first 1019
  caller arguments and the NULL sentinel (1024 entries), and nothing is reported:
  standard output stays empty and standard error holds nothing but the message of a
  failed exec.
\<close>

theorem truncation_within_bounds:
  "1019 < length args \<Longrightarrow>
     (\<exists>buf. python_argv (prog # args) = Some buf \<and> length buf = 1024
        \<and> c_vector buf = Some (map Str ([noshell_python, ''-E'', ''-s'', noshell_script]
                                         @ take 1019 args) @ [Null]))
     \<and> (\<exists>c. r_execs (main_noshell sys (prog # args) env0) = [c]
          \<and> ec_argv c = map Str ([noshell_python, ''-E'', ''-s'', noshell_script]
                                   @ take 1019 args) @ [Null]
          \<and> length (ec_argv c) = 1024
          \<and> last (ec_argv c) = Null
          \<and> r_stderr (main_noshell sys (prog # args) env0) =
              (case sys_exec sys c of None \<Rightarrow> []
               | Some errno \<Rightarrow> [perror sys ''Failed to execute Python'' errno]))
     \<and> r_status (main_noshell sys (prog # args) env0) \<noteq> Undefined
     \<and> r_stdout (main_noshell sys (prog # args) env0) = []"
proof (intro conjI)
  assume a: "1019 < length args"
  let ?v = "map Str ([noshell_python, ''-E'', ''-s'', noshell_script] @ take 1019 args) @ [Null]"
  let ?c = "\<lparr>ec_path = noshell_python, ec_argv = ?v,
             ec_envp = environ_table (noshell_env env0)\<rparr>"
  have run: "main_noshell sys (prog # args) env0 =
      exec_or_fail sys ?c ''Failed to execute Python'' [] []"
    using main_noshell_run [of "prog # args" sys env0] a by simp
  show "\<exists>buf. python_argv (prog # args) = Some buf \<and> length buf = 1024
        \<and> c_vector buf = Some ?v"
    using python_argv_vector [of "prog # args"] by simp
  have "length ?v = 1024" "last ?v = Null" using a by simp_all
  then show "\<exists>c. r_execs (main_noshell sys (prog # args) env0) = [c]
          \<and> ec_argv c = ?v \<and> length (ec_argv c) = 1024 \<and> last (ec_argv c) = Null
          \<and> r_stderr (main_noshell sys (prog # args) env0) =
              (case sys_exec sys c of None \<Rightarrow> []
               | Some errno \<Rightarrow> [perror sys ''Failed to execute Python'' errno])"
    unfolding run by (simp add: r_stderr_exec_or_fail split: option.split)
  show "r_status (main_noshell sys (prog # args) env0) \<noteq> Undefined"
    unfolding run by (simp add: r_status_exec_or_fail split: option.split)
  show "r_stdout (main_noshell sys (prog # args) env0) = []"
    unfolding run by simp
qed

theorem truncation_within_bounds_witness:
  "1019 < length (replicate 1025 ''x'')
   \<and> map ec_argv (r_execs (main_noshell os_present (''agent'' # replicate 1025 ''x'') env_plain))
       = [map Str ([''/usr/bin/python3'', ''-E'', ''-s'', ''/root/Tools/Mobile-Agent/agent-direct'']
                   @ replicate 1019 ''x'') @ [Null]]
   \<and> r_status (main_noshell os_present (''agent'' # replicate 1025 ''x'') env_plain) \<noteq> Undefined
   \<and> r_stderr (main_noshell os_present (''agent'' # replicate 1025 ''x'') env_plain) = []"
proof -
  have h: "1019 < length (replicate 1025 ''x'')" by simp
  have t: "take 1019 (replicate 1025 ''x'') = replicate 1019 ''x''" by simp
  from truncation_within_bounds [OF h, of "''agent''" os_present env_plain]
  obtain c where
    "r_execs (main_noshell os_present (''agent'' # replicate 1025 ''x'') env_plain) = [c]"
    "ec_argv c = map Str ([noshell_python, ''-E'', ''-s'', noshell_script]
                          @ take 1019 (replicate 1025 ''x'')) @ [Null]"
    "r_stderr (main_noshell os_present (''agent'' # replicate 1025 ''x'') env_plain) =
              (case sys_exec os_present c of None \<Rightarrow> []
               | Some errno \<Rightarrow> [perror os_present ''Failed to execute Python'' errno])"
    "r_status (main_noshell os_present (''agent'' # replicate 1025 ''x'') env_plain) \<noteq> Undefined"
    by blast
  then show ?thesis
    using h by (simp add: t os_present_def noshell_python_def noshell_script_def)
qed

text \<open>
  C8. \<^verbatim>\<open>agent-noshrc\<close> has no cap: its array has \<open>argc + 2\<close> entries, and for every
  \<open>argc \<ge> 1\<close> the vector is its two-entry prefix, all \<open>argc - 1\<close> caller arguments in
  order, and the NULL sentinel. \<^verbatim>\<open>agent-noshell\<close>, given the same command line with
  more than 1019 caller arguments, passes on fewer entries than it was given.
\<close>

theorem noshrc_never_truncates:
  "argv \<noteq> [] \<Longrightarrow>
     (\<exists>err'. agent_args argv err =
        Some (map Str ([noshrc_python, noshrc_agent] @ tl argv) @ [Null], err'))
     \<and> (\<not> (1 < length argv \<and> argv ! 1 = ''--help'') \<longrightarrow>
          (\<exists>d. r_execs (main_noshrc rp sys argv env0) = [d]
             \<and> ec_argv d = map Str ([noshrc_python, noshrc_agent] @ tl argv) @ [Null]
             \<and> length (ec_argv d) = length argv + 2))
     \<and> (1020 < length argv \<longrightarrow>
          (\<exists>c. r_execs (main_noshell sys argv env0) = [c]
             \<and> ec_argv c = map Str ([noshell_python, ''-E'', ''-s'', noshell_script]
                                      @ take 1019 (tl argv)) @ [Null]
             \<and> length (ec_argv c) < length argv + 4))"
proof (intro conjI impI)
  assume ne: "argv \<noteq> []"
  show "\<exists>err'. agent_args argv err =
        Some (map Str ([noshrc_python, noshrc_agent] @ tl argv) @ [Null], err')"
    using agent_args_nonempty [OF ne, of err] by blast
  {
    assume "\<not> (1 < length argv \<and> argv ! 1 = ''--help'')"
    then show "\<exists>d. r_execs (main_noshrc rp sys argv env0) = [d]
             \<and> ec_argv d = map Str ([noshrc_python, noshrc_agent] @ tl argv) @ [Null]
             \<and> length (ec_argv d) = length argv + 2"
      using ne by (simp add: noshrc_execs)
  }
  {
    assume "1020 < length argv"
    then show "\<exists>c. r_execs (main_noshell sys argv env0) = [c]
             \<and> ec_argv c = map Str ([noshell_python, ''-E'', ''-s'', noshell_script]
                                      @ take 1019 (tl argv)) @ [Null]
             \<and> length (ec_argv c) < length argv + 4"
      by (simp add: noshell_execs)
  }
qed

theorem noshrc_never_truncates_witness:
  "''agent'' # replicate 1025 ''x'' \<noteq> []
   \<and> \<not> (1 < length (''agent'' # replicate 1025 ''x'')
          \<and> (''agent'' # replicate 1025 ''x'') ! 1 = ''--help'')
   \<and> 1020 < length (''agent'' # replicate 1025 ''x'')
   \<and> map ec_argv (r_execs (main_noshrc Pointer_Switch os_present (''agent'' # replicate 1025 ''x'') env_plain))
       = [map Str ([''/root/.mobile-agent/.claude_venv/bin/python'', ''/root/.mobile-agent/agent'']
                   @ replicate 1025 ''x'') @ [Null]]
   \<and> map ec_argv (r_execs (main_noshell os_present (''agent'' # replicate 1025 ''x'') env_plain))
       = [map Str ([''/usr/bin/python3'', ''-E'', ''-s'', ''/root/Tools/Mobile-Agent/agent-direct'']
                   @ replicate 1019 ''x'') @ [Null]]"
proof -
  let ?argv = "''agent'' # replicate 1025 ''x''"
  have h1: "?argv \<noteq> []" by simp
  have h2: "\<not> (1 < length ?argv \<and> ?argv ! 1 = ''--help'')" by simp
  have h3: "1020 < length ?argv" by simp
  have t: "take 1019 (replicate 1025 ''x'') = replicate 1019 ''x''" by simp
  from noshrc_never_truncates [OF h1, of "[]" Pointer_Switch os_present env_plain] h2 h3
  obtain c d where
    "r_execs (main_noshrc Pointer_Switch os_present ?argv env_plain) = [d]"
    "ec_argv d = map Str ([noshrc_python, noshrc_agent] @ tl ?argv) @ [Null]"
    "r_execs (main_noshell os_present ?argv env_plain) = [c]"
    "ec_argv c = map Str ([noshell_python, ''-E'', ''-s'', noshell_script]
                                      @ take 1019 (tl ?argv)) @ [Null]"
    by blast
  then show ?thesis
    using h3
    by (simp add: t noshell_python_def noshell_script_def noshrc_python_def noshrc_agent_def)
qed


section \<open>Usage and help\<close>

text \<open>
  C6. With no argument after the program name (\<open>argc < 2\<close>), \<^verbatim>\<open>agent-noshell\<close> writes
  the usage error \<^verbatim>\<open>Usage: agent-noshell <request>\<close> to standard error, nothing to
  standard output, and exits with code 1 without any exec call; \<^verbatim>\<open>agent-noshrc\<close> goes
  on to the exec call, with no caller argument in the vector.
\<close>

theorem no_arguments:
  "length argv < 2 \<Longrightarrow>
     main_noshell sys argv env0 =
       \<lparr>r_stdout = [], r_stderr = [''Usage: agent-noshell <request>\<newline>''],
        r_execs = [], r_status = Exited 1\<rparr>
     \<and> (\<exists>d. r_execs (main_noshrc rp sys argv env0) = [d]
          \<and> ec_argv d = (if argv = [] then [Str noshrc_python, Null]
                          else [Str noshrc_python, Str noshrc_agent, Null]))"
proof (intro conjI)
  assume a: "length argv < 2"
  show "main_noshell sys argv env0 =
       \<lparr>r_stdout = [], r_stderr = [''Usage: agent-noshell <request>\<newline>''],
        r_execs = [], r_status = Exited 1\<rparr>"
    using a by (simp add: main_noshell_usage noshell_usage_def)
  from a have "argv = [] \<or> tl argv = []" by (cases argv) auto
  with a show "\<exists>d. r_execs (main_noshrc rp sys argv env0) = [d]
          \<and> ec_argv d = (if argv = [] then [Str noshrc_python, Null]
                          else [Str noshrc_python, Str noshrc_agent, Null])"
    by (auto simp: noshrc_execs)
qed

theorem no_arguments_witness:
  "length [''agent''] < 2
   \<and> r_status (main_noshell os_present [''agent''] env_plain) = Exited 1
   \<and> r_stderr (main_noshell os_present [''agent''] env_plain)
       = [''Usage: agent-noshell <request>\<newline>'']
   \<and> r_stdout (main_noshell os_present [''agent''] env_plain) = []
   \<and> r_execs (main_noshell os_present [''agent''] env_plain) = []
   \<and> map ec_argv (r_execs (main_noshrc Pointer_Switch os_present [''agent''] env_plain))
       = [[Str ''/root/.mobile-agent/.claude_venv/bin/python'',
           Str ''/root/.mobile-agent/agent'', Null]]"
proof -
  have h: "length [''agent''] < 2" by simp
  from no_arguments [OF h, of os_present env_plain Pointer_Switch]
  obtain d where
    "main_noshell os_present [''agent''] env_plain =
       \<lparr>r_stdout = [], r_stderr = [''Usage: agent-noshell <request>\<newline>''],
        r_execs = [], r_status = Exited 1\<rparr>"
    "r_execs (main_noshrc Pointer_Switch os_present [''agent''] env_plain) = [d]"
    "ec_argv d = (if [''agent''] = [] then [Str noshrc_python, Null]
                  else [Str noshrc_python, Str noshrc_agent, Null])"
    by blast
  then show ?thesis by (simp add: noshrc_python_def noshrc_agent_def)
qed

text \<open>
  C5. In \<^verbatim>\<open>agent-noshrc\<close>, when \<^verbatim>\<open>argv[1]\<close> is exactly \<^verbatim>\<open>--help\<close> the program prints
  its banner to standard output (the two title lines and the usage line with
  \<^verbatim>\<open>argv[0]\<close>), writes nothing to standard error, and exits with code 0 without any
  exec call. In every other case, wherever else \<^verbatim>\<open>--help\<close> may stand, it prints
  nothing to standard output, issues the exec call and does not exit with code 0.
\<close>

theorem help_flag:
  "(1 < length argv \<and> argv ! 1 = ''--help'' \<longrightarrow>
      main_noshrc rp sys argv env0 =
        \<lparr>r_stdout =
           [''Mobile Agent C Wrapper (ARM64)\<newline>'',
            ''Prevents .zshrc loading by using execve() directly\<newline>'',
            ''Usage: '' @ argv ! 0 @ '' <agent-request>\<newline>''],
         r_stderr = [], r_execs = [], r_status = Exited 0\<rparr>)
   \<and> (\<not> (1 < length argv \<and> argv ! 1 = ''--help'') \<longrightarrow>
      r_stdout (main_noshrc rp sys argv env0) = []
      \<and> r_status (main_noshrc rp sys argv env0) \<noteq> Exited 0
      \<and> (\<exists>d. r_execs (main_noshrc rp sys argv env0) = [d]))"
proof (intro conjI impI)
  assume h: "1 < length argv \<and> argv ! 1 = ''--help''"
  then show "main_noshrc rp sys argv env0 =
        \<lparr>r_stdout =
           [''Mobile Agent C Wrapper (ARM64)\<newline>'',
            ''Prevents .zshrc loading by using execve() directly\<newline>'',
            ''Usage: '' @ argv ! 0 @ '' <agent-request>\<newline>''],
         r_stderr = [], r_execs = [], r_status = Exited 0\<rparr>"
    by (simp add: main_noshrc_help help_banner_def)
next
  assume n: "\<not> (1 < length argv \<and> argv ! 1 = ''--help'')"
  note run = main_noshrc_run [OF n, of rp sys env0]
  show "r_stdout (main_noshrc rp sys argv env0) = []"
    unfolding run by simp
  show "r_status (main_noshrc rp sys argv env0) \<noteq> Exited 0"
    unfolding run by (simp add: r_status_exec_or_fail split: option.split)
  show "\<exists>d. r_execs (main_noshrc rp sys argv env0) = [d]"
    unfolding run by simp
qed

theorem help_flag_witness:
  "(1 < length [''agent'', ''--help'', ''x''] \<and> [''agent'', ''--help'', ''x''] ! 1 = ''--help'')
   \<and> r_status (main_noshrc Pointer_Switch os_present [''agent'', ''--help'', ''x''] env_plain)
       = Exited 0
   \<and> r_execs (main_noshrc Pointer_Switch os_present [''agent'', ''--help'', ''x''] env_plain) = []
   \<and> r_stderr (main_noshrc Pointer_Switch os_present [''agent'', ''--help'', ''x''] env_plain) = []
   \<and> r_stdout (main_noshrc Pointer_Switch os_present [''agent'', ''--help'', ''x''] env_plain)
       = [''Mobile Agent C Wrapper (ARM64)\<newline>'',
          ''Prevents .zshrc loading by using execve() directly\<newline>'',
          ''Usage: agent <agent-request>\<newline>'']
   \<and> \<not> (1 < length [''agent'', ''x'', ''--help''] \<and> [''agent'', ''x'', ''--help''] ! 1 = ''--help'')
   \<and> r_stdout (main_noshrc Pointer_Switch os_present [''agent'', ''x'', ''--help''] env_plain) = []
   \<and> r_status (main_noshrc Pointer_Switch os_present [''agent'', ''x'', ''--help''] env_plain)
       \<noteq> Exited 0
   \<and> length (r_execs (main_noshrc Pointer_Switch os_present [''agent'', ''x'', ''--help''] env_plain))
       = 1"
proof -
  have h1: "1 < length [''agent'', ''--help'', ''x''] \<and> [''agent'', ''--help'', ''x''] ! 1 = ''--help''"
    by simp
  have h2: "\<not> (1 < length [''agent'', ''x'', ''--help''] \<and> [''agent'', ''x'', ''--help''] ! 1 = ''--help'')"
    by simp
  from help_flag [of "[''agent'', ''--help'', ''x'']" Pointer_Switch os_present env_plain] h1
  have a: "main_noshrc Pointer_Switch os_present [''agent'', ''--help'', ''x''] env_plain =
        \<lparr>r_stdout =
           [''Mobile Agent C Wrapper (ARM64)\<newline>'',
            ''Prevents .zshrc loading by using execve() directly\<newline>'',
            ''Usage: '' @ [''agent'', ''--help'', ''x''] ! 0 @ '' <agent-request>\<newline>''],
         r_stderr = [], r_execs = [], r_status = Exited 0\<rparr>"
    by blast
  from help_flag [of "[''agent'', ''x'', ''--help'']" Pointer_Switch os_present env_plain] h2
  obtain d where b:
    "r_stdout (main_noshrc Pointer_Switch os_present [''agent'', ''x'', ''--help''] env_plain) = []"
    "r_status (main_noshrc Pointer_Switch os_present [''agent'', ''x'', ''--help''] env_plain)
       \<noteq> Exited 0"
    "r_execs (main_noshrc Pointer_Switch os_present [''agent'', ''x'', ''--help''] env_plain) = [d]"
    by blast
  show ?thesis using h1 h2 b by (simp add: a)
qed

section \<open>When exec returns\<close>

lemma perror_nonempty: "perror sys msg errno \<noteq> []" "last (perror sys msg errno) = CHR ''\<newline>''"
  by (simp_all add: perror_def)

lemma exec_or_fail_failed:
  "sys_exec sys call = Some errno \<Longrightarrow>
   exec_or_fail sys call msg out err =
     \<lparr>r_stdout = out, r_stderr = err @ [perror sys msg errno], r_execs = [call],
      r_status = Exited 1\<rparr>"
  by (simp add: exec_or_fail_def)

text \<open>
  C3. Whenever the exec call returns (it failed, with some errno), the launcher has
  issued exactly that one exec call, writes the \<^verbatim>\<open>perror\<close> message, which is not
  empty, to standard error, and exits with code 1. Both \<^verbatim>\<open>main\<close> functions are total:
  their only loops are the two copy loops, which terminate, so no run hangs.
\<close>

theorem exec_failure_reported:
  "(c \<in> set (r_execs (main_noshell sys argv env0)) \<and> sys_exec sys c = Some errno \<longrightarrow>
      r_status (main_noshell sys argv env0) = Exited 1
      \<and> r_stderr (main_noshell sys argv env0) = [perror sys ''Failed to execute Python'' errno]
      \<and> perror sys ''Failed to execute Python'' errno \<noteq> []
      \<and> r_execs (main_noshell sys argv env0) = [c])
   \<and> (d \<in> set (r_execs (main_noshrc rp sys argv env0)) \<and> sys_exec sys d = Some errno \<longrightarrow>
      r_status (main_noshrc rp sys argv env0) = Exited 1
      \<and> last (r_stderr (main_noshrc rp sys argv env0))
          = perror sys (glass @ '' C WRAPPER: execve failed'') errno
      \<and> perror sys (glass @ '' C WRAPPER: execve failed'') errno \<noteq> []
      \<and> r_execs (main_noshrc rp sys argv env0) = [d])"
proof (intro conjI impI)
  assume h: "c \<in> set (r_execs (main_noshell sys argv env0)) \<and> sys_exec sys c = Some errno"
  then have len: "2 \<le> length argv"
    by (auto simp: noshell_execs split: if_splits)
  from h have c: "c = \<lparr>ec_path = noshell_python,
        ec_argv = map Str ([noshell_python, ''-E'', ''-s'', noshell_script] @ take 1019 (tl argv))
                  @ [Null],
        ec_envp = environ_table (noshell_env env0)\<rparr>"
    by (auto simp: noshell_execs split: if_splits)
  have run: "main_noshell sys argv env0 =
     \<lparr>r_stdout = [], r_stderr = [] @ [perror sys ''Failed to execute Python'' errno],
      r_execs = [c], r_status = Exited 1\<rparr>"
    using h unfolding main_noshell_run [OF len] c by (intro exec_or_fail_failed) simp
  show "r_status (main_noshell sys argv env0) = Exited 1"
    "r_stderr (main_noshell sys argv env0) = [perror sys ''Failed to execute Python'' errno]"
    "r_execs (main_noshell sys argv env0) = [c]"
    unfolding run by simp_all
  show "perror sys ''Failed to execute Python'' errno \<noteq> []"
    by (rule perror_nonempty)
next
  assume h: "d \<in> set (r_execs (main_noshrc rp sys argv env0)) \<and> sys_exec sys d = Some errno"
  then have n: "\<not> (1 < length argv \<and> argv ! 1 = ''--help'')"
    by (auto simp: noshrc_execs split: if_splits)
  have "r_execs (main_noshrc rp sys argv env0) = [\<lparr>ec_path = noshrc_python,
        ec_argv = (if argv = [] then [Str noshrc_python]
                   else map Str ([noshrc_python, noshrc_agent] @ tl argv)) @ [Null],
        ec_envp = (if getenv debug_toggle env0 = Some ''1'' \<and> rp = Pointer_Switch then clean_env_debug else clean_env)\<rparr>]"
    unfolding main_noshrc_run [OF n] by (rule r_execs_exec_or_fail)
  with h have d: "d = \<lparr>ec_path = noshrc_python,
        ec_argv = (if argv = [] then [Str noshrc_python]
                   else map Str ([noshrc_python, noshrc_agent] @ tl argv)) @ [Null],
        ec_envp = (if getenv debug_toggle env0 = Some ''1'' \<and> rp = Pointer_Switch then clean_env_debug else clean_env)\<rparr>"
    by simp
  let ?err = "start_line (length argv) # map (\<lambda>j. arg_line j (argv ! j)) [1..<length argv]
        @ (if getenv debug_toggle env0 = Some ''1'' then [debug_line] else [])
        @ [exec_line]"
  have run: "main_noshrc rp sys argv env0 =
     \<lparr>r_stdout = [], r_stderr = ?err @ [perror sys (glass @ '' C WRAPPER: execve failed'') errno],
      r_execs = [d], r_status = Exited 1\<rparr>"
    using h unfolding main_noshrc_run [OF n] d by (intro exec_or_fail_failed) simp
  show "r_status (main_noshrc rp sys argv env0) = Exited 1"
    "r_execs (main_noshrc rp sys argv env0) = [d]"
    unfolding run by simp_all
  show "last (r_stderr (main_noshrc rp sys argv env0))
          = perror sys (glass @ '' C WRAPPER: execve failed'') errno"
    unfolding run by (simp del: append_Cons)
  show "perror sys (glass @ '' C WRAPPER: execve failed'') errno \<noteq> []"
    by (rule perror_nonempty)
qed

theorem exec_failure_reported_witness:
  "(let c = hd (r_execs (main_noshell os_missing argv_hello env_plain));
        d = hd (r_execs (main_noshrc Pointer_Switch os_missing argv_hello env_plain))
    in c \<in> set (r_execs (main_noshell os_missing argv_hello env_plain))
       \<and> sys_exec os_missing c = Some 2
       \<and> d \<in> set (r_execs (main_noshrc Pointer_Switch os_missing argv_hello env_plain))
       \<and> sys_exec os_missing d = Some 2
       \<and> r_status (main_noshell os_missing argv_hello env_plain) = Exited 1
       \<and> r_stderr (main_noshell os_missing argv_hello env_plain)
           = [''Failed to execute Python: No such file or directory\<newline>'']
       \<and> r_status (main_noshrc Pointer_Switch os_missing argv_hello env_plain) = Exited 1
       \<and> last (r_stderr (main_noshrc Pointer_Switch os_missing argv_hello env_plain))
           = [CHR 0xF0, CHR 0x9F, CHR 0x94, CHR 0x8D]
             @ '' C WRAPPER: execve failed: No such file or directory\<newline>'')"
proof -
  let ?c = "hd (r_execs (main_noshell os_missing argv_hello env_plain))"
  let ?d = "hd (r_execs (main_noshrc Pointer_Switch os_missing argv_hello env_plain))"
  have c: "?c \<in> set (r_execs (main_noshell os_missing argv_hello env_plain))"
    by (simp add: noshell_execs argv_hello_def)
  have d: "?d \<in> set (r_execs (main_noshrc Pointer_Switch os_missing argv_hello env_plain))"
    by (simp add: noshrc_execs argv_hello_def)
  have e: "sys_exec os_missing ?c = Some 2" "sys_exec os_missing ?d = Some 2"
    by (simp_all add: os_missing_def)
  have p: "perror os_missing ''Failed to execute Python'' 2
             = ''Failed to execute Python: No such file or directory\<newline>''"
    "perror os_missing (glass @ '' C WRAPPER: execve failed'') 2
             = [CHR 0xF0, CHR 0x9F, CHR 0x94, CHR 0x8D]
               @ '' C WRAPPER: execve failed: No such file or directory\<newline>''"
    by (simp_all add: perror_def os_missing_def glass_def)
  from exec_failure_reported [of ?c os_missing argv_hello env_plain 2 ?d Pointer_Switch] c d e
  have "r_status (main_noshell os_missing argv_hello env_plain) = Exited 1"
    "r_stderr (main_noshell os_missing argv_hello env_plain)
       = [perror os_missing ''Failed to execute Python'' 2]"
    "r_status (main_noshrc Pointer_Switch os_missing argv_hello env_plain) = Exited 1"
    "last (r_stderr (main_noshrc Pointer_Switch os_missing argv_hello env_plain))
       = perror os_missing (glass @ '' C WRAPPER: execve failed'') 2"
    by blast+
  then show ?thesis
    unfolding Let_def using c d e by (simp only: p simp_thms)
qed

section \<open>The debug toggle\<close>

text \<open>
  The value of an inherited variable is what \<^verbatim>\<open>getenv\<close> returns for it: \<open>None\<close> when
  no entry carries the name, and otherwise the value of the first entry that does.
\<close>

lemma getenv_None_iff: "getenv name env = None \<longleftrightarrow> (\<forall>e \<in> set env. \<not> env_match name e)"
  by (induction env) auto

lemma getenv_first:
  "\<forall>e \<in> set pre. \<not> env_match name e \<Longrightarrow>
   getenv name (pre @ (name @ ''='' @ val) # post) = Some val"
  by (induction pre) (auto simp: env_match_def)

lemma toggle_not_in_clean_env:
  "debug_toggle \<notin> set (table_keys clean_env)"
  "Str ''AGENT_DEBUG_SUBPROCESS=1'' \<notin> set clean_env"
  by (simp_all add: clean_env_def debug_toggle_def entry_key_def)

lemma toggle_in_clean_env_debug:
  "Str ''AGENT_DEBUG_SUBPROCESS=1'' \<in> set clean_env_debug"
  by (simp add: clean_env_debug_def)

lemma noshrc_envp:
  "d \<in> set (r_execs (main_noshrc rp sys argv env0)) \<Longrightarrow>
   ec_envp d = (if getenv debug_toggle env0 = Some ''1'' \<and> rp = Pointer_Switch then clean_env_debug else clean_env)"
  by (auto simp: noshrc_execs split: if_splits)

lemma noshrc_toggle_entry:
  "d \<in> set (r_execs (main_noshrc rp sys argv env0)) \<Longrightarrow>
   Str ''AGENT_DEBUG_SUBPROCESS=1'' \<in> set (ec_envp d)
     \<longleftrightarrow> getenv debug_toggle env0 = Some ''1'' \<and> rp = Pointer_Switch"
  using noshrc_envp [of d rp sys argv env0]
  by (simp add: toggle_in_clean_env_debug toggle_not_in_clean_env)

lemma noshrc_toggle_omitted:
  "d \<in> set (r_execs (main_noshrc rp sys argv env0)) \<Longrightarrow>
   getenv debug_toggle env0 = None \<or> getenv debug_toggle env0 = Some ''0'' \<Longrightarrow>
   ec_envp d = clean_env \<and> debug_toggle \<notin> set (table_keys (ec_envp d))"
  using noshrc_envp [of d rp sys argv env0]
  by (auto simp: toggle_not_in_clean_env)

text \<open>
  C4. The claim is that \<^verbatim>\<open>agent-noshrc\<close>, run with an inherited
  \<^verbatim>\<open>AGENT_DEBUG_SUBPROCESS=1\<close>, hands \<^verbatim>\<open>execve\<close> a table with the entry
  \<^verbatim>\<open>AGENT_DEBUG_SUBPROCESS=1\<close>. The code attempts it and misses: line 60 is not
  valid C. On the command line \<^verbatim>\<open>agent hello world\<close> with the environment
  \<^verbatim>\<open>HOME=/root\<close>, \<^verbatim>\<open>PATH=/tmp/evil\<close>, \<^verbatim>\<open>AGENT_DEBUG_SUBPROCESS=1\<close> the toggle reads
  \<^verbatim>\<open>1\<close>, the debug line is written to standard error, and with line 60 without
  effect the table is the plain one, which has no such entry; the entry is passed
  only if line 60 is made a switch of pointers.
\<close>

theorem debug_toggle_switch_ill_formed:
  "getenv debug_toggle env_debug = Some ''1''
   \<and> map ec_envp (r_execs (main_noshrc No_Effect os_present argv_hello env_debug))
       = [[Str ''PATH=/usr/bin:/bin:/usr/local/bin:/sbin:/usr/sbin'',
           Str ''PYTHONPATH=/root/.mobile-agent'',
           Str ''PYTHONIOENCODING=utf-8'',
           Str ''PYTHONNOUSERSITE=1'',
           Str ''PYTHONDONTWRITEBYTECODE=1'',
           Null]]
   \<and> debug_line \<in> set (r_stderr (main_noshrc No_Effect os_present argv_hello env_debug))
   \<and> map ec_envp (r_execs (main_noshrc Pointer_Switch os_present argv_hello env_debug))
       = [[Str ''PATH=/usr/bin:/bin:/usr/local/bin:/sbin:/usr/sbin'',
           Str ''PYTHONPATH=/root/.mobile-agent'',
           Str ''PYTHONIOENCODING=utf-8'',
           Str ''PYTHONNOUSERSITE=1'',
           Str ''PYTHONDONTWRITEBYTECODE=1'',
           Str ''AGENT_DEBUG_SUBPROCESS=1'',
           Null]]"
proof -
  have g: "getenv debug_toggle env_debug = Some ''1''"
    by (simp add: debug_toggle_def env_debug_def env_match_def)
  have n: "\<not> (1 < length argv_hello \<and> argv_hello ! 1 = ''--help'')"
    by (simp add: argv_hello_def)
  have 1: "map ec_envp (r_execs (main_noshrc No_Effect os_present argv_hello env_debug))
       = [clean_env]"
    by (simp add: noshrc_execs argv_hello_def)
  have 2: "map ec_envp (r_execs (main_noshrc Pointer_Switch os_present argv_hello env_debug))
       = [clean_env_debug]"
    by (simp add: noshrc_execs argv_hello_def g)
  have 3: "debug_line \<in> set (r_stderr (main_noshrc No_Effect os_present argv_hello env_debug))"
    unfolding main_noshrc_run [OF n]
    by (simp add: r_stderr_exec_or_fail g split: option.split)
  show ?thesis
    using g 1 2 3 by (simp add: clean_env_def clean_env_debug_def)
qed

text \<open>
  C9. In \<^verbatim>\<open>agent-noshrc\<close>, for every inherited value of \<^verbatim>\<open>AGENT_DEBUG_SUBPROCESS\<close>
  other than exactly \<^verbatim>\<open>1\<close> (and when the variable is absent), the table handed to
  exec is the plain one, with no entry for the toggle.
\<close>

theorem debug_toggle_exact_match:
  "getenv debug_toggle env0 \<noteq> Some ''1'' \<Longrightarrow>
   d \<in> set (r_execs (main_noshrc rp sys argv env0)) \<Longrightarrow>
     ec_envp d = clean_env
     \<and> debug_toggle \<notin> set (table_keys (ec_envp d))
     \<and> Str ''AGENT_DEBUG_SUBPROCESS=1'' \<notin> set (ec_envp d)"
proof -
  assume g: "getenv debug_toggle env0 \<noteq> Some ''1''"
    and d: "d \<in> set (r_execs (main_noshrc rp sys argv env0))"
  from noshrc_envp [OF d] g have "ec_envp d = clean_env" by simp
  then show ?thesis by (simp add: toggle_not_in_clean_env)
qed

theorem debug_toggle_exact_match_witness:
  "(let e1 = [''AGENT_DEBUG_SUBPROCESS=true'']; e2 = [''AGENT_DEBUG_SUBPROCESS=01''];
        e3 = [''AGENT_DEBUG_SUBPROCESS=1 '']; e4 = [''AGENT_DEBUG_SUBPROCESS='']
    in getenv debug_toggle e1 = Some ''true'' \<and> getenv debug_toggle e2 = Some ''01''
       \<and> getenv debug_toggle e3 = Some ''1 '' \<and> getenv debug_toggle e4 = Some ''''
       \<and> map ec_envp (r_execs (main_noshrc Pointer_Switch os_present argv_hello e1)) = [clean_env]
       \<and> map ec_envp (r_execs (main_noshrc Pointer_Switch os_present argv_hello e2)) = [clean_env]
       \<and> map ec_envp (r_execs (main_noshrc Pointer_Switch os_present argv_hello e3)) = [clean_env]
       \<and> map ec_envp (r_execs (main_noshrc Pointer_Switch os_present argv_hello e4)) = [clean_env]
       \<and> debug_toggle \<notin> set (table_keys clean_env))"
proof -
  let ?e1 = "[''AGENT_DEBUG_SUBPROCESS=true'']"
  let ?e2 = "[''AGENT_DEBUG_SUBPROCESS=01'']"
  let ?e3 = "[''AGENT_DEBUG_SUBPROCESS=1 '']"
  let ?e4 = "[''AGENT_DEBUG_SUBPROCESS='']"
  have g: "getenv debug_toggle ?e1 = Some ''true''" "getenv debug_toggle ?e2 = Some ''01''"
    "getenv debug_toggle ?e3 = Some ''1 ''" "getenv debug_toggle ?e4 = Some ''''"
    by (simp_all add: debug_toggle_def env_match_def)
  have n: "getenv debug_toggle ?e1 \<noteq> Some ''1''" "getenv debug_toggle ?e2 \<noteq> Some ''1''"
    "getenv debug_toggle ?e3 \<noteq> Some ''1''" "getenv debug_toggle ?e4 \<noteq> Some ''1''"
    unfolding g by simp_all
  have x: "\<And>e. \<exists>d. r_execs (main_noshrc Pointer_Switch os_present argv_hello e) = [d]"
    by (simp add: noshrc_execs argv_hello_def)
  have k: "\<And>e. getenv debug_toggle e \<noteq> Some ''1'' \<Longrightarrow>
      map ec_envp (r_execs (main_noshrc Pointer_Switch os_present argv_hello e)) = [clean_env]
      \<and> debug_toggle \<notin> set (table_keys clean_env)"
  proof -
    fix e
    assume ne: "getenv debug_toggle e \<noteq> Some ''1''"
    from x obtain d where d: "r_execs (main_noshrc Pointer_Switch os_present argv_hello e) = [d]" by blast
    then have "d \<in> set (r_execs (main_noshrc Pointer_Switch os_present argv_hello e))" by simp
    from debug_toggle_exact_match [OF ne this] d
    show "map ec_envp (r_execs (main_noshrc Pointer_Switch os_present argv_hello e)) = [clean_env]
      \<and> debug_toggle \<notin> set (table_keys clean_env)"
      by auto
  qed
  show ?thesis
    unfolding Let_def using g k [OF n(1)] k [OF n(2)] k [OF n(3)] k [OF n(4)] by blast
qed

section \<open>Diagnostics of agent-noshrc\<close>

lemma is_line_diagnostics:
  "is_line (start_line n)" "is_line (arg_line i a)" "is_line debug_line" "is_line exec_line"
  "is_line (perror sys msg errno)"
  by (simp_all add: is_line_def start_line_def arg_line_def debug_line_def exec_line_def
      perror_def)

text \<open>
  C10. On every run of \<^verbatim>\<open>agent-noshrc\<close> that does not take the \<^verbatim>\<open>--help\<close> branch,
  standard error is not empty and each chunk written to it is a non-empty line.
  Before the exec call is issued it already holds the start line, one line for each
  caller argument, the debug line when the toggle is honoured, and the line
  announcing the exec; that is all of it when exec succeeds, and a failed exec adds
  the \<^verbatim>\<open>perror\<close> message.
\<close>

theorem noshrc_stderr_never_silent:
  "\<not> (1 < length argv \<and> argv ! 1 = ''--help'') \<Longrightarrow>
     r_stderr (main_noshrc rp sys argv env0) \<noteq> []
     \<and> list_all is_line (r_stderr (main_noshrc rp sys argv env0))
     \<and> (\<exists>d. r_execs (main_noshrc rp sys argv env0) = [d]
          \<and> r_stderr (main_noshrc rp sys argv env0) =
               (start_line (length argv)
                # map (\<lambda>j. arg_line j (argv ! j)) [1..<length argv]
                @ (if getenv debug_toggle env0 = Some ''1'' then [debug_line] else [])
                @ [exec_line])
               @ (case sys_exec sys d of
                    None \<Rightarrow> []
                  | Some errno \<Rightarrow> [perror sys (glass @ '' C WRAPPER: execve failed'') errno]))
     \<and> (length argv - 1) + 2 \<le> length (r_stderr (main_noshrc rp sys argv env0))"
proof -
  assume n: "\<not> (1 < length argv \<and> argv ! 1 = ''--help'')"
  let ?d = "\<lparr>ec_path = noshrc_python,
        ec_argv = (if argv = [] then [Str noshrc_python]
                   else map Str ([noshrc_python, noshrc_agent] @ tl argv)) @ [Null],
        ec_envp = (if getenv debug_toggle env0 = Some ''1'' \<and> rp = Pointer_Switch then clean_env_debug else clean_env)\<rparr>"
  let ?pre = "start_line (length argv) # map (\<lambda>j. arg_line j (argv ! j)) [1..<length argv]
        @ (if getenv debug_toggle env0 = Some ''1'' then [debug_line] else [])
        @ [exec_line]"
  let ?post = "case sys_exec sys ?d of None \<Rightarrow> []
      | Some errno \<Rightarrow> [perror sys (glass @ '' C WRAPPER: execve failed'') errno]"
  note run = main_noshrc_run [OF n, of rp sys env0]
  have err: "r_stderr (main_noshrc rp sys argv env0) = ?pre @ ?post"
    unfolding run by (simp add: r_stderr_exec_or_fail split: option.split)
  have ex: "r_execs (main_noshrc rp sys argv env0) = [?d]"
    unfolding run by (rule r_execs_exec_or_fail)
  have pre: "list_all is_line ?pre"
    by (auto simp: is_line_diagnostics list_all_iff)
  have post: "list_all is_line ?post"
    by (simp add: is_line_diagnostics split: option.split)
  have 1: "r_stderr (main_noshrc rp sys argv env0) \<noteq> []"
    unfolding err by simp
  have 2: "list_all is_line (r_stderr (main_noshrc rp sys argv env0))"
    unfolding err using pre post by (simp only: list_all_append simp_thms)
  have 3: "\<exists>d. r_execs (main_noshrc rp sys argv env0) = [d]
          \<and> r_stderr (main_noshrc rp sys argv env0) = ?pre
               @ (case sys_exec sys d of
                    None \<Rightarrow> []
                  | Some errno \<Rightarrow> [perror sys (glass @ '' C WRAPPER: execve failed'') errno])"
    using ex err by blast
  have 4: "(length argv - 1) + 2 \<le> length (r_stderr (main_noshrc rp sys argv env0))"
    unfolding err by simp
  from 1 2 3 4 show ?thesis by blast
qed

theorem noshrc_stderr_never_silent_witness:
  "\<not> (1 < length argv_hello \<and> argv_hello ! 1 = ''--help'')
   \<and> r_stderr (main_noshrc Pointer_Switch os_present argv_hello env_plain) =
[[CHR 0xF0, CHR 0x9F, CHR 0x94, CHR 0x8D] @ '' C WRAPPER (ARM64): Starting with 3 args\<newline>'',
        [CHR 0xF0, CHR 0x9F, CHR 0x94, CHR 0x8D] @ '' C WRAPPER: Arg 1: hello\<newline>'',
        [CHR 0xF0, CHR 0x9F, CHR 0x94, CHR 0x8D] @ '' C WRAPPER: Arg 2: world\<newline>'',
        [CHR 0xF0, CHR 0x9F, CHR 0x94, CHR 0x8D]
          @ '' C WRAPPER: Executing with clean environment\<newline>'']
   \<and> list_all is_line (r_stderr (main_noshrc Pointer_Switch os_present argv_hello env_plain))"
proof -
  have h: "\<not> (1 < length argv_hello \<and> argv_hello ! 1 = ''--help'')"
    by (simp add: argv_hello_def)
  have u: "[1..<length argv_hello] = [1, 2]"
    by (simp add: argv_hello_def upt_rec)
  have g: "getenv debug_toggle env_plain \<noteq> Some ''1''"
    by (simp add: debug_toggle_def env_plain_def env_match_def)
  have c1: "char_of (49::nat) = CHR ''1''" by code_simp
  have c2: "char_of (50::nat) = CHR ''2''" by code_simp
  have c3: "char_of (51::nat) = CHR ''3''" by code_simp
  note digits = c1 c2 c3
  from noshrc_stderr_never_silent [OF h, of Pointer_Switch os_present env_plain]
  obtain d where
    l: "list_all is_line (r_stderr (main_noshrc Pointer_Switch os_present argv_hello env_plain))"
    and e: "r_stderr (main_noshrc Pointer_Switch os_present argv_hello env_plain) =
               (start_line (length argv_hello)
                # map (\<lambda>j. arg_line j (argv_hello ! j)) [1..<length argv_hello]
                @ (if getenv debug_toggle env_plain = Some ''1'' then [debug_line] else [])
                @ [exec_line])
               @ (case sys_exec os_present d of
                    None \<Rightarrow> []
                  | Some errno \<Rightarrow>
                      [perror os_present (glass @ '' C WRAPPER: execve failed'') errno])"
    by blast
  have "r_stderr (main_noshrc Pointer_Switch os_present argv_hello env_plain) =
[[CHR 0xF0, CHR 0x9F, CHR 0x94, CHR 0x8D] @ '' C WRAPPER (ARM64): Starting with 3 args\<newline>'',
        [CHR 0xF0, CHR 0x9F, CHR 0x94, CHR 0x8D] @ '' C WRAPPER: Arg 1: hello\<newline>'',
        [CHR 0xF0, CHR 0x9F, CHR 0x94, CHR 0x8D] @ '' C WRAPPER: Arg 2: world\<newline>'',
        [CHR 0xF0, CHR 0x9F, CHR 0x94, CHR 0x8D]
          @ '' C WRAPPER: Executing with clean environment\<newline>'']"
    unfolding e u using g
    by (simp add: os_present_def argv_hello_def start_line_def arg_line_def exec_line_def
        glass_def digits)
  with h l show ?thesis by blast
qed

end
